theory Spec2Isabelle
  imports Complex_Main "HOL-Library.AList"
begin

section \<open>Python strings\<close>

text \<open>
  Python \<open>str\<close> values are modelled as HOL strings, one \<open>char\<close> per character.
  The helpers below are the string operations the source uses, with Python's results
  written out (\<open>find\<close> and \<open>rfind\<close> return \<open>-1\<close> when the character is absent).
\<close>

fun find_char :: "char \<Rightarrow> string \<Rightarrow> int" where
  "find_char c [] = -1"
| "find_char c (x # xs) =
     (if x = c then 0 else (let r = find_char c xs in if r < 0 then -1 else r + 1))"

definition rfind_char :: "char \<Rightarrow> string \<Rightarrow> int" where
  "rfind_char c s =
     (let r = find_char c (rev s) in if r < 0 then -1 else int (length s) - 1 - r)"

definition slice :: "string \<Rightarrow> int \<Rightarrow> int \<Rightarrow> string" where
  \<comment> \<open>\<open>s[a:b]\<close> for non-negative \<open>a\<close> and \<open>b\<close>\<close>
  "slice s a b = take (nat (b - a)) (drop (nat a) s)"

fun join :: "string \<Rightarrow> string list \<Rightarrow> string" where
  "join sep [] = []"
| "join sep [x] = x"
| "join sep (x # y # ys) = x @ sep @ join sep (y # ys)"

definition digit_char :: "nat \<Rightarrow> char" where
  "digit_char n = ''0123456789'' ! (n mod 10)"

function str_nat :: "nat \<Rightarrow> string" where
  "str_nat n = (if n < 10 then [digit_char n] else str_nat (n div 10) @ [digit_char n])"
  by pat_completeness auto
termination
  by (relation "measure id") auto

definition str_int :: "int \<Rightarrow> string" where
  \<comment> \<open>\<open>str(i)\<close> for a Python int\<close>
  "str_int i = (if i < 0 then CHR ''-'' # str_nat (nat (- i)) else str_nat (nat i))"


section \<open>RateLimiter\<close>

text \<open>
  Delays and timestamps are Python floats; they are modelled as real numbers, so the
  arithmetic below is exact. The lock is not modelled: every method body runs under it,
  so each method is one atomic state change.
\<close>

record RateLimiter =
  current_delay :: real
  max_delay :: real
  backoff_factor :: real
  last_request_time :: real

definition RateLimiter_init :: "real \<Rightarrow> real \<Rightarrow> real \<Rightarrow> RateLimiter" where
  "RateLimiter_init initial_delay maxd factor =
     \<lparr>current_delay = initial_delay, max_delay = maxd, backoff_factor = factor,
      last_request_time = 0\<rparr>"

definition RateLimiter_default :: RateLimiter where
  \<comment> \<open>\<open>RateLimiter()\<close>, as \<open>GeminiProcessor.__init__\<close> builds it\<close>
  "RateLimiter_default = RateLimiter_init 1 60 (3 / 2)"

text \<open>
  \<open>wait\<close> reads the clock, sleeps for what is missing of \<open>current_delay\<close> and stores
  the clock after the sleep. The clock is part of the state that is passed along; a
  sleep of \<open>d\<close> seconds advances it by \<open>d\<close>.
\<close>

definition wait :: "RateLimiter \<times> real \<Rightarrow> RateLimiter \<times> real" where
  "wait st =
     (case st of (rl, clock) \<Rightarrow>
        (let elapsed = clock - last_request_time rl;
             clock' = (if elapsed < current_delay rl
                       then clock + (current_delay rl - elapsed) else clock)
         in (rl\<lparr>last_request_time := clock'\<rparr>, clock')))"

definition success :: "RateLimiter \<Rightarrow> RateLimiter" where
  "success rl = rl\<lparr>current_delay := max (current_delay rl / (6 / 5)) 1\<rparr>"

text \<open>
  \<open>failure\<close> draws \<open>jitter = random.uniform(0.8, 1.2)\<close>; the drawn value is an
  argument of the model. It returns the new delay together with the new state.
\<close>

definition failure :: "real \<Rightarrow> RateLimiter \<Rightarrow> RateLimiter \<times> real" where
  "failure jitter rl =
     (let d = min (current_delay rl * backoff_factor rl * jitter) (max_delay rl)
      in (rl\<lparr>current_delay := d\<rparr>, d))"

datatype limiter_call = CallSuccess | CallFailure real

fun apply_call :: "limiter_call \<Rightarrow> RateLimiter \<Rightarrow> RateLimiter" where
  "apply_call CallSuccess rl = success rl"
| "apply_call (CallFailure jitter) rl = fst (failure jitter rl)"

fun apply_calls :: "limiter_call list \<Rightarrow> RateLimiter \<Rightarrow> RateLimiter" where
  "apply_calls [] rl = rl"
| "apply_calls (c # cs) rl = apply_calls cs (apply_call c rl)"

fun jitter_ok :: "limiter_call \<Rightarrow> bool" where
  "jitter_ok CallSuccess = True"
| "jitter_ok (CallFailure jitter) = (4 / 5 \<le> jitter \<and> jitter \<le> 6 / 5)"

section \<open>The retry wrapper\<close>

text \<open>
  The world the wrapper runs in: the rate limiter, the clock, and a log of what was
  called, in order. The log is instrumentation: the source keeps no such list, the model
  appends an entry at each call so that call counts and call order can be stated.
\<close>

datatype event =
    EvWait
  | EvAttempt
  | EvSuccess
  | EvFailure real
  | EvSleep real

record world =
  limiter :: RateLimiter
  clock :: real
  log :: "event list"

definition do_wait :: "world \<Rightarrow> world" where
  "do_wait w =
     (case wait (limiter w, clock w) of
        (rl, c) \<Rightarrow> w\<lparr>limiter := rl, clock := c, log := log w @ [EvWait]\<rparr>)"

definition do_success :: "world \<Rightarrow> world" where
  "do_success w = w\<lparr>limiter := success (limiter w), log := log w @ [EvSuccess]\<rparr>"

definition do_failure :: "real \<Rightarrow> world \<Rightarrow> world \<times> real" where
  "do_failure jitter w =
     (case failure jitter (limiter w) of
        (rl, d) \<Rightarrow> (w\<lparr>limiter := rl, log := log w @ [EvFailure d]\<rparr>, d))"

definition do_sleep :: "real \<Rightarrow> world \<Rightarrow> world" where
  "do_sleep d w = w\<lparr>clock := clock w + d, log := log w @ [EvSleep d]\<rparr>"

text \<open>
  \<open>_call_gemini\<close>: the reply of the model library at one attempt is an argument,
  \<open>Inl msg\<close> when the library raises an exception whose \<open>str\<close> is \<open>msg\<close>, \<open>Inr text\<close>
  when it answers. The source wraps every exception into a new one.
\<close>

definition call_gemini :: "bool \<Rightarrow> string + string \<Rightarrow> string + string" where
  "call_gemini GEMINI_AVAILABLE reply =
     (if \<not> GEMINI_AVAILABLE then Inr ''Google Generative AI not available''
      else case reply of
             Inl msg \<Rightarrow> Inl (''Gemini API call failed: '' @ msg)
           | Inr text \<Rightarrow> Inr text)"

text \<open>
  The \<open>while attempts < max_retries\<close> loop. \<open>replies k\<close> is the library's reply at the
  \<open>k\<close>-th attempt of this call and \<open>jitters k\<close> the jitter drawn after it.
  \<open>last_exception\<close> is \<open>None\<close> until an attempt has failed.
\<close>

function retry_loop ::
  "bool \<Rightarrow> (nat \<Rightarrow> string + string) \<Rightarrow> (nat \<Rightarrow> real) \<Rightarrow> int \<Rightarrow> nat \<Rightarrow> string option \<Rightarrow> world
     \<Rightarrow> (string + string) \<times> world"
where
  "retry_loop avail replies jitters max_retries attempts last_exception w =
     (if int attempts < max_retries then
        (let w1 = do_wait w;
             w2 = w1\<lparr>log := log w1 @ [EvAttempt]\<rparr>
         in case call_gemini avail (replies attempts) of
              Inr response \<Rightarrow> (Inr response, do_success w2)
            | Inl e \<Rightarrow>
                (case do_failure (jitters attempts) w2 of
                   (w3, wait_time) \<Rightarrow>
                     retry_loop avail replies jitters max_retries (attempts + 1) (Some e)
                       (do_sleep wait_time w3)))
      else
        (Inl (''Maximum retries ('' @ str_int max_retries @ '') exceeded: '' @
              (case last_exception of None \<Rightarrow> ''None'' | Some e \<Rightarrow> e)), w))"
  by pat_completeness auto
termination
  by (relation "measure (\<lambda>(avail, replies, jitters, max_retries, attempts, last_exception, w).
                   nat (max_retries - int attempts))") auto

definition call_gemini_with_retry ::
  "bool \<Rightarrow> (nat \<Rightarrow> string + string) \<Rightarrow> (nat \<Rightarrow> real) \<Rightarrow> int \<Rightarrow> world
     \<Rightarrow> (string + string) \<times> world"
where
  "call_gemini_with_retry avail replies jitters max_retries w =
     (if \<not> avail then (Inr ''Google Generative AI not available'', w)
      else retry_loop avail replies jitters max_retries 0 None w)"

text \<open>The world after one failed attempt and after one successful attempt of the loop.\<close>

definition attempt_failed :: "real \<Rightarrow> world \<Rightarrow> world" where
  "attempt_failed jitter w =
     (let w1 = do_wait w; w2 = w1\<lparr>log := log w1 @ [EvAttempt]\<rparr>
      in case do_failure jitter w2 of (w3, wait_time) \<Rightarrow> do_sleep wait_time w3)"

definition attempt_succeeded :: "world \<Rightarrow> world" where
  "attempt_succeeded w =
     (let w1 = do_wait w; w2 = w1\<lparr>log := log w1 @ [EvAttempt]\<rparr> in do_success w2)"

fun is_failure_call :: "event \<Rightarrow> bool" where
  "is_failure_call (EvFailure d) = True"
| "is_failure_call _ = False"

fun is_success_call :: "event \<Rightarrow> bool" where
  "is_success_call EvSuccess = True"
| "is_success_call _ = False"

fun is_wait_call :: "event \<Rightarrow> bool" where
  "is_wait_call EvWait = True"
| "is_wait_call _ = False"

definition world0 :: world where
  \<comment> \<open>a fresh processor at time 100\<close>
  "world0 = \<lparr>limiter = RateLimiter_default, clock = 100, log = []\<rparr>"

section \<open>JSON values and Python's dynamic operations on them\<close>

text \<open>
  What \<open>json.loads\<close> returns: \<open>None\<close>, a bool, an int, a float, a str, a list or a dict.
  A float is a rational number, an infinity or NaN (\<open>json.loads\<close> accepts \<open>Infinity\<close> and
  \<open>NaN\<close>). A dict is an association list in insertion order; \<open>d[k] = v\<close> is
  \<open>AList.update\<close>, which replaces the value in place or appends a new key at the end,
  as Python does.
\<close>

datatype pyfloat = Finite rat | PosInf | NegInf | NaN

datatype json =
    JNull
  | JBool bool
  | JInt int
  | JFloat pyfloat
  | JStr string
  | JArr "json list"
  | JObj "(string \<times> json) list"

type_synonym dict = "(string \<times> json) list"

text \<open>
  The exceptions the parser can meet. Their messages are only printed by the source,
  so they carry none here.
\<close>

datatype exn = ValueError | TypeError | OverflowError | JSONDecodeError

definition seq :: "exn + 'a \<Rightarrow> ('a \<Rightarrow> exn + 'b) \<Rightarrow> exn + 'b" where
  \<comment> \<open>run the first computation; an exception skips the rest\<close>
  "seq r f = (case r of Inl e \<Rightarrow> Inl e | Inr x \<Rightarrow> f x)"

definition has_key :: "dict \<Rightarrow> string \<Rightarrow> bool" where
  \<comment> \<open>\<open>k in d\<close>\<close>
  "has_key d k = (map_of d k \<noteq> None)"

definition get_or :: "dict \<Rightarrow> string \<Rightarrow> json \<Rightarrow> json" where
  \<comment> \<open>\<open>d.get(k, default)\<close>\<close>
  "get_or d k dflt = (case map_of d k of None \<Rightarrow> dflt | Some v \<Rightarrow> v)"

fun is_list :: "json \<Rightarrow> bool" where
  "is_list (JArr xs) = True"
| "is_list _ = False"

fun items :: "json \<Rightarrow> json list" where
  \<comment> \<open>the elements of a value already known to be a list\<close>
  "items (JArr xs) = xs"
| "items _ = []"

fun truthy :: "json \<Rightarrow> bool" where
  "truthy JNull = False"
| "truthy (JBool b) = b"
| "truthy (JInt i) = (i \<noteq> 0)"
| "truthy (JFloat (Finite q)) = (q \<noteq> 0)"
| "truthy (JFloat _) = True"
| "truthy (JStr s) = (s \<noteq> [])"
| "truthy (JArr xs) = (xs \<noteq> [])"
| "truthy (JObj kvs) = (kvs \<noteq> [])"

subsection \<open>\<open>int(x)\<close>\<close>

definition is_space :: "char \<Rightarrow> bool" where
  \<comment> \<open>the ASCII blanks: space, tab, line feed, vertical tab, form feed, carriage return\<close>
  "is_space c = (c \<in> set [CHR '' '', CHR 0x09, CHR 0x0A, CHR 0x0B, CHR 0x0C, CHR 0x0D])"

definition strip :: "string \<Rightarrow> string" where
  "strip s = rev (dropWhile is_space (rev (dropWhile is_space s)))"

definition is_digit :: "char \<Rightarrow> bool" where
  "is_digit c = (c \<in> set ''0123456789'')"

definition digit_val :: "char \<Rightarrow> nat" where
  "digit_val c = (of_char c :: nat) - 48"

text \<open>
  A decimal literal as \<open>int\<close> reads it: digits, where a single underscore may stand
  between two digits. \<open>digits_val acc cs\<close> is called after a digit has been read.
\<close>

fun digits_val :: "nat \<Rightarrow> string \<Rightarrow> nat option" where
  "digits_val acc [] = Some acc"
| "digits_val acc [c] = (if is_digit c then Some (acc * 10 + digit_val c) else None)"
| "digits_val acc (c # d # ds) =
     (if is_digit c then digits_val (acc * 10 + digit_val c) (d # ds)
      else if c = CHR ''_'' \<and> is_digit d then digits_val (acc * 10 + digit_val d) ds
      else None)"

definition parse_nat :: "string \<Rightarrow> nat option" where
  "parse_nat s =
     (case s of [] \<Rightarrow> None
      | c # cs \<Rightarrow> if is_digit c then digits_val (digit_val c) cs else None)"

definition int_of_str :: "string \<Rightarrow> int option" where
  "int_of_str s =
     (case strip s of
        [] \<Rightarrow> None
      | c # cs \<Rightarrow>
          if c = CHR ''-'' then map_option (\<lambda>n. - int n) (parse_nat cs)
          else if c = CHR ''+'' then map_option int (parse_nat cs)
          else map_option int (parse_nat (c # cs)))"

definition trunc :: "rat \<Rightarrow> int" where
  \<comment> \<open>rounding toward zero\<close>
  "trunc q = (if 0 \<le> q then \<lfloor>q\<rfloor> else - \<lfloor>- q\<rfloor>)"

fun py_int :: "json \<Rightarrow> exn + int" where
  "py_int JNull = Inl TypeError"
| "py_int (JBool b) = Inr (if b then 1 else 0)"
| "py_int (JInt i) = Inr i"
| "py_int (JFloat (Finite q)) = Inr (trunc q)"
| "py_int (JFloat NaN) = Inl ValueError"
| "py_int (JFloat _) = Inl OverflowError"
| "py_int (JStr s) = (case int_of_str s of None \<Rightarrow> Inl ValueError | Some i \<Rightarrow> Inr i)"
| "py_int (JArr xs) = Inl TypeError"
| "py_int (JObj kvs) = Inl TypeError"

subsection \<open>String building\<close>

text \<open>
  \<open>sep.join(xs)\<close> raises TypeError unless every element is a str; \<open>s += v\<close> on a str
  \<open>s\<close> raises TypeError unless \<open>v\<close> is a str.
\<close>

fun is_str :: "json \<Rightarrow> bool" where
  "is_str (JStr s) = True"
| "is_str _ = False"

fun str_of :: "json \<Rightarrow> string" where
  "str_of (JStr s) = s"
| "str_of _ = []"

definition str_join :: "string \<Rightarrow> json list \<Rightarrow> exn + string" where
  "str_join sep xs =
     (if list_all is_str xs then Inr (join sep (map str_of xs)) else Inl TypeError)"

fun str_add :: "string \<Rightarrow> json \<Rightarrow> exn + string" where
  "str_add s (JStr t) = Inr (s @ t)"
| "str_add s _ = Inl TypeError"

text \<open>
  A value inside an f-string, \<open>f"{v}"\<close>. The text of a float, a list or a dict is
  Python's \<open>repr\<close>, which is not part of the repository: \<open>repr\<close> is an argument.
\<close>

fun format_value :: "(json \<Rightarrow> string) \<Rightarrow> json \<Rightarrow> string" where
  "format_value repr (JStr s) = s"
| "format_value repr (JInt i) = str_int i"
| "format_value repr JNull = ''None''"
| "format_value repr (JBool b) = (if b then ''True'' else ''False'')"
| "format_value repr v = repr v"

section \<open>\<open>GeminiProcessor._parse_response\<close>\<close>

definition required_fields :: "string list" where
  "required_fields =
     [''name'', ''email'', ''phone'', ''location'', ''experience'',
      ''skills'', ''work_history'', ''education'', ''linkedin'', ''github'',
      ''languages'', ''certifications'']"

definition list_fields :: "string list" where
  "list_fields =
     [''work_history'', ''education'', ''skills'', ''languages'', ''certifications'',
      ''match_reasons'', ''gap_analysis'']"

fun ensure_fields :: "string list \<Rightarrow> dict \<Rightarrow> dict" where
  \<comment> \<open>the loop \<open>for field in required_fields\<close>\<close>
  "ensure_fields [] d = d"
| "ensure_fields (field # rest) d =
     ensure_fields rest
       (if \<not> has_key d field then
          (if field \<in> set list_fields then AList.update field (JArr []) d
           else AList.update field (JStr []) d)
        else d)"

text \<open>
  \<open>int(...)\<close> runs inside \<open>try ... except (ValueError, TypeError)\<close>: those two give 0,
  any other exception leaves the inner \<open>try\<close>.
\<close>

definition coerce_experience :: "dict \<Rightarrow> exn + dict" where
  "coerce_experience d =
     (case map_of d ''experience'' of
        None \<Rightarrow> Inr (AList.update ''experience'' (JInt 0) d)
      | Some JNull \<Rightarrow> Inr (AList.update ''experience'' (JInt 0) d)
      | Some v \<Rightarrow>
          (case py_int v of
             Inr i \<Rightarrow> Inr (AList.update ''experience'' (JInt i) d)
           | Inl ValueError \<Rightarrow> Inr (AList.update ''experience'' (JInt 0) d)
           | Inl TypeError \<Rightarrow> Inr (AList.update ''experience'' (JInt 0) d)
           | Inl e \<Rightarrow> Inl e))"

definition format_skills :: "dict \<Rightarrow> exn + dict" where
  "format_skills d =
     (if is_list (get_or d ''skills'' (JArr [])) then
        seq (str_join '', '' (items (get_or d ''skills'' (JArr []))))
          (\<lambda>s. Inr (AList.update ''skills'' (JStr s) d))
      else Inr d)"

definition education_entry :: "(json \<Rightarrow> string) \<Rightarrow> dict \<Rightarrow> exn + string" where
  "education_entry repr edu =
     seq (case map_of edu ''degree'' of
            None \<Rightarrow> Inr []
          | Some v \<Rightarrow> str_add [] v)
       (\<lambda>s1.
     seq (case map_of edu ''institution'' of
            None \<Rightarrow> Inr s1
          | Some v \<Rightarrow> str_add (if s1 \<noteq> [] then s1 @ '' from '' else s1) v)
       (\<lambda>s2.
     let s3 = (case map_of edu ''year'' of
                 None \<Rightarrow> s2
               | Some v \<Rightarrow> s2 @ '' ('' @ format_value repr v @ '')'');
         s4 = (case map_of edu ''field'' of
                 None \<Rightarrow> s3
               | Some v \<Rightarrow> s3 @ '', '' @ format_value repr v)
     in Inr s4))"

fun education_parts :: "(json \<Rightarrow> string) \<Rightarrow> json list \<Rightarrow> exn + string list" where
  "education_parts repr [] = Inr []"
| "education_parts repr (JObj edu # rest) =
     seq (education_entry repr edu)
       (\<lambda>s. seq (education_parts repr rest) (\<lambda>ss. Inr (s # ss)))"
| "education_parts repr (_ # rest) = education_parts repr rest"

definition format_education :: "(json \<Rightarrow> string) \<Rightarrow> dict \<Rightarrow> exn + dict" where
  "format_education repr d =
     (if is_list (get_or d ''education'' (JArr [])) then
        seq (education_parts repr (items (get_or d ''education'' (JArr []))))
          (\<lambda>parts. Inr (AList.update ''education'' (JStr (join ''; '' parts)) d))
      else Inr d)"

text \<open>
  A language entry that is a dict with a \<open>name\<close>: the name must be a str. With a name
  of another type the source raises TypeError a little later, at \<open>+=\<close> or at the final
  \<open>join\<close> (a list name survives \<open>+=\<close> and fails in \<open>join\<close>); nothing is stored in
  between, so the model raises at once.
\<close>

definition language_entry :: "(json \<Rightarrow> string) \<Rightarrow> dict \<Rightarrow> exn + string" where
  "language_entry repr lang =
     (case map_of lang ''name'' of
        Some (JStr n) \<Rightarrow>
          (case map_of lang ''proficiency'' of
             None \<Rightarrow> Inr n
           | Some v \<Rightarrow> Inr (n @ '' ('' @ format_value repr v @ '')''))
      | _ \<Rightarrow> Inl TypeError)"

fun language_parts :: "(json \<Rightarrow> string) \<Rightarrow> json list \<Rightarrow> exn + string list" where
  "language_parts repr [] = Inr []"
| "language_parts repr (JObj lang # rest) =
     (if has_key lang ''name'' then
        seq (language_entry repr lang)
          (\<lambda>s. seq (language_parts repr rest) (\<lambda>ss. Inr (s # ss)))
      else language_parts repr rest)"
| "language_parts repr (JStr s # rest) =
     seq (language_parts repr rest) (\<lambda>ss. Inr (s # ss))"
| "language_parts repr (_ # rest) = language_parts repr rest"

definition format_languages :: "(json \<Rightarrow> string) \<Rightarrow> dict \<Rightarrow> exn + dict" where
  "format_languages repr d =
     (if is_list (get_or d ''languages'' (JArr [])) then
        seq (language_parts repr (items (get_or d ''languages'' (JArr []))))
          (\<lambda>parts. Inr (AList.update ''languages'' (JStr (join '', '' parts)) d))
      else Inr d)"

definition format_certifications :: "dict \<Rightarrow> exn + dict" where
  "format_certifications d =
     (if is_list (get_or d ''certifications'' (JArr [])) then
        seq (str_join '', '' (items (get_or d ''certifications'' (JArr []))))
          (\<lambda>s. Inr (AList.update ''certifications'' (JStr s) d))
      else Inr d)"

definition job_entry :: "(json \<Rightarrow> string) \<Rightarrow> dict \<Rightarrow> exn + string" where
  "job_entry repr job =
     seq (case map_of job ''position'' of
            None \<Rightarrow> Inr []
          | Some v \<Rightarrow> str_add [] v)
       (\<lambda>s1.
     seq (case map_of job ''company'' of
            None \<Rightarrow> Inr s1
          | Some v \<Rightarrow> str_add (if s1 \<noteq> [] then s1 @ '' at '' else s1) v)
       (\<lambda>s2.
     Inr (case map_of job ''dates'' of
            None \<Rightarrow> s2
          | Some v \<Rightarrow> s2 @ '' ('' @ format_value repr v @ '')'')))"

fun job_parts :: "(json \<Rightarrow> string) \<Rightarrow> json list \<Rightarrow> exn + string list" where
  "job_parts repr [] = Inr []"
| "job_parts repr (JObj job # rest) =
     seq (job_entry repr job)
       (\<lambda>s. seq (job_parts repr rest) (\<lambda>ss. Inr (s # ss)))"
| "job_parts repr (_ # rest) = job_parts repr rest"

definition add_work_history_summary :: "(json \<Rightarrow> string) \<Rightarrow> dict \<Rightarrow> exn + dict" where
  "add_work_history_summary repr d =
     (if is_list (get_or d ''work_history'' (JArr [])) \<and>
         truthy (get_or d ''work_history'' (JArr [])) then
        seq (job_parts repr (items (get_or d ''work_history'' (JArr []))))
          (\<lambda>parts. Inr (AList.update ''work_history_summary'' (JStr (join ''; '' parts)) d))
      else Inr (AList.update ''work_history_summary'' (JStr []) d))"

definition bullet_sep :: string where
  \<comment> \<open>\<open>"\n- "\<close>\<close>
  "bullet_sep = CHR 0x0A # ''- ''"

definition add_match_reasons_text :: "dict \<Rightarrow> exn + dict" where
  "add_match_reasons_text d =
     (if has_key d ''match_reasons'' \<and> is_list (get_or d ''match_reasons'' (JArr [])) then
        seq (str_join bullet_sep (items (get_or d ''match_reasons'' (JArr []))))
          (\<lambda>s. Inr (AList.update ''match_reasons_text'' (JStr (''- '' @ s)) d))
      else Inr (AList.update ''match_reasons_text'' (JStr []) d))"

definition add_gap_analysis_text :: "dict \<Rightarrow> exn + dict" where
  "add_gap_analysis_text d =
     (if has_key d ''gap_analysis'' \<and> is_list (get_or d ''gap_analysis'' (JArr [])) \<and>
         truthy (get_or d ''gap_analysis'' (JArr [])) then
        seq (str_join bullet_sep (items (get_or d ''gap_analysis'' (JArr []))))
          (\<lambda>s. Inr (AList.update ''gap_analysis_text''
                      (JStr (''Areas for improvement:'' @ bullet_sep @ s)) d))
      else Inr (AList.update ''gap_analysis_text''
                  (JStr ''No significant gaps identified.'') d))"

definition ensure_match_score :: "dict \<Rightarrow> dict" where
  "ensure_match_score d =
     (if \<not> has_key d ''match_score'' then AList.update ''match_score'' (JInt 0) d else d)"

text \<open>Everything the source does to the parsed dict, in the source's order.\<close>

definition normalize :: "(json \<Rightarrow> string) \<Rightarrow> dict \<Rightarrow> exn + dict" where
  "normalize repr d0 =
     seq (coerce_experience (ensure_fields required_fields d0)) (\<lambda>d1.
     seq (format_skills d1) (\<lambda>d2.
     seq (format_education repr d2) (\<lambda>d3.
     seq (format_languages repr d3) (\<lambda>d4.
     seq (format_certifications d4) (\<lambda>d5.
     seq (add_work_history_summary repr d5) (\<lambda>d6.
     seq (add_match_reasons_text d6) (\<lambda>d7.
     seq (add_gap_analysis_text d7) (\<lambda>d8.
     Inr (ensure_match_score d8)))))))))"

definition fallback_record :: dict where
  \<comment> \<open>the dict of the \<open>except\<close> branch\<close>
  "fallback_record =
     [(''name'', JStr ''Unknown''),
      (''email'', JStr []),
      (''phone'', JStr []),
      (''education'', JStr []),
      (''experience'', JInt 0),
      (''skills'', JStr []),
      (''location'', JStr []),
      (''linkedin'', JStr []),
      (''github'', JStr []),
      (''languages'', JStr []),
      (''certifications'', JStr []),
      (''work_history'', JArr []),
      (''work_history_summary'', JStr []),
      (''match_score'', JInt 0),
      (''match_reasons'', JArr []),
      (''match_reasons_text'', JStr []),
      (''gap_analysis'', JArr []),
      (''gap_analysis_text'', JStr ''No analysis available.'')]"

text \<open>
  The body of the \<open>try\<close>. \<open>json.loads\<close> is Python's library: it is the argument
  \<open>loads\<close>, which returns \<open>None\<close> when \<open>json.loads\<close> raises. The text it is given
  starts with an opening brace, so what it returns is a dict.
\<close>

definition parse_response_try ::
  "(string \<Rightarrow> dict option) \<Rightarrow> (json \<Rightarrow> string) \<Rightarrow> string \<Rightarrow> exn + dict" where
  "parse_response_try loads repr response =
     (let json_start = find_char CHR ''{'' response;
          json_end = rfind_char CHR ''}'' response + 1
      in if json_start \<ge> 0 \<and> json_end > json_start then
           (case loads (slice response json_start json_end) of
              None \<Rightarrow> Inl JSONDecodeError
            | Some extracted_info \<Rightarrow> normalize repr extracted_info)
         else Inl ValueError)"

definition parse_response ::
  "(string \<Rightarrow> dict option) \<Rightarrow> (json \<Rightarrow> string) \<Rightarrow> string \<Rightarrow> dict" where
  "parse_response loads repr response =
     (case parse_response_try loads repr response of
        Inl e \<Rightarrow> fallback_record
      | Inr extracted_info \<Rightarrow> extracted_info)"


section \<open>\<open>GeminiProcessor.analyze_document\<close>\<close>










section \<open>ProcessingQueue\<close>

subsection \<open>Task ids\<close>




subsection \<open>State\<close>

datatype status = Queued | Processing | Completed | Failed | Unknown

record task_entry =
  status :: status
  data :: "dict option"
  error :: "string option"

type_synonym task = "string \<times> string \<times> dict option"

text \<open>
  \<open>add_task\<close> runs in the caller's thread and \<open>_process_queue\<close> in the worker thread.
  Each thread's position is part of the state, so that the statements of the two can
  be interleaved one by one. The caller is between two statements of \<open>add_task\<close> or
  outside it; the worker is at the loop head, holds a task it has taken from the queue
  (before or after marking it as processing), is past the loop, or has died of an
  uncaught exception. There is one calling thread. A worker is started only while
  \<open>processing\<close> is false, and only the worker's last statement makes it false again,
  so at most one worker is alive.
\<close>

datatype caller_pc = CallerIdle | AfterPut string | AfterWrite string

datatype worker_pc = NoWorker | AtLoopHead | Marking task | Analysing task | Exiting | Crashed

record pq =
  queue :: "task list"
  results :: "string \<rightharpoonup> task_entry"
  processing :: bool
  caller :: caller_pc
  worker :: worker_pc



subsection \<open>The statements of \<open>add_task\<close>\<close>





subsection \<open>The statements of \<open>_process_queue\<close>\<close>





definition get_result :: "pq \<Rightarrow> string \<Rightarrow> task_entry" where
  "get_result s task_id =
     (case results s task_id of
        None \<Rightarrow> \<lparr>status = Unknown, data = None, error = None\<rparr>
      | Some entry \<Rightarrow> entry)"

subsection \<open>Interleavings\<close>








section \<open>The query filter (\<open>components/filter.py\<close>)\<close>

subsection \<open>Strings\<close>







subsection \<open>\<open>simple_keyword_filter\<close>\<close>




subsection \<open>\<open>process_nlp_query\<close>\<close>



subsection \<open>\<open>matches_filters\<close>\<close>













subsection \<open>\<open>filter_resumes_with_nlp\<close>\<close>



section \<open>The invariant of the queue\<close>








section \<open>Auxiliary notions for the parser's properties\<close>



text \<open>
  The text of an education entry, written from the format
  \<open>"<degree> from <institution> (<year>), <field>"\<close>: a part that is absent is left
  out; \<open>" from "\<close> stands before the institution only when the degree gave some text;
  the year always comes as \<open>" (<year>)"\<close> and the field always as \<open>", <field>"\<close>,
  whatever stands before them. It is compared with the source's \<open>education_entry\<close>
  below.
\<close>

definition str_or_absent :: "dict \<Rightarrow> string \<Rightarrow> bool" where
  "str_or_absent d k = (case map_of d k of None \<Rightarrow> True | Some v \<Rightarrow> is_str v)"

definition text_at :: "dict \<Rightarrow> string \<Rightarrow> string" where
  "text_at d k = (case map_of d k of None \<Rightarrow> [] | Some v \<Rightarrow> str_of v)"

definition education_text :: "(json \<Rightarrow> string) \<Rightarrow> dict \<Rightarrow> string" where
  "education_text repr edu =
     text_at edu ''degree'' @
     (if has_key edu ''institution''
      then (if text_at edu ''degree'' \<noteq> [] then '' from '' else []) @ text_at edu ''institution''
      else []) @
     (case map_of edu ''year'' of None \<Rightarrow> [] | Some v \<Rightarrow> '' ('' @ format_value repr v @ '')'') @
     (case map_of edu ''field'' of None \<Rightarrow> [] | Some v \<Rightarrow> '', '' @ format_value repr v)"

fun objects :: "json list \<Rightarrow> dict list" where
  \<comment> \<open>the entries of a list that are dicts\<close>
  "objects [] = []"
| "objects (JObj d # rest) = d # objects rest"
| "objects (_ # rest) = objects rest"

definition education_typed :: "dict \<Rightarrow> bool" where
  \<comment> \<open>degree and institution, where present, are strs\<close>
  "education_typed edu = (str_or_absent edu ''degree'' \<and> str_or_absent edu ''institution'')"

section \<open>Auxiliary notions for the properties of \<open>analyze_document\<close>\<close>


section \<open>Properties of the rate limiter\<close>

lemma success_floor_one:
  assumes "1 \<le> current_delay rl" and "current_delay rl \<le> max_delay rl"
  shows "1 \<le> current_delay (success rl)"
    and "current_delay (success rl) \<le> max_delay (success rl)"
    and "current_delay (success rl) \<le> current_delay rl"
  using assms by (simp_all add: success_def max_def)

lemma failure_raises_delay:
  assumes "1 \<le> current_delay rl" and "current_delay rl \<le> max_delay rl"
    and "backoff_factor rl = 3 / 2" and "4 / 5 \<le> jitter" and "jitter \<le> 6 / 5"
  shows "current_delay rl \<le> current_delay (fst (failure jitter rl))"
    and "current_delay (fst (failure jitter rl)) \<le> max_delay rl"
    and "snd (failure jitter rl) = current_delay (fst (failure jitter rl))"
proof -
  have "current_delay rl * (3 / 2) * (4 / 5) \<le> current_delay rl * (3 / 2) * jitter"
    using assms by (intro mult_left_mono) auto
  then have up: "current_delay rl \<le> current_delay rl * (3 / 2) * jitter"
    using assms by simp
  have d: "current_delay (fst (failure jitter rl)) =
           min (current_delay rl * (3 / 2) * jitter) (max_delay rl)"
    by (simp add: failure_def Let_def assms(3))
  show "current_delay rl \<le> current_delay (fst (failure jitter rl))"
    unfolding d using up assms(2) by simp
  show "current_delay (fst (failure jitter rl)) \<le> max_delay rl"
    by (simp add: failure_def Let_def)
  show "snd (failure jitter rl) = current_delay (fst (failure jitter rl))"
    by (simp add: failure_def Let_def)
qed

lemma apply_call_keeps_parameters:
  "max_delay (apply_call c rl) = max_delay rl \<and>
   backoff_factor (apply_call c rl) = backoff_factor rl"
  by (cases c) (simp_all add: success_def failure_def Let_def)

text \<open>
  With the constructor's defaults (initial delay 1, factor 1.5) the delay stays between
  the initial delay and the cap under every sequence of calls.
\<close>

lemma default_limiter_invariant:
  assumes "list_all jitter_ok cs" and "1 \<le> current_delay rl"
    and "current_delay rl \<le> max_delay rl" and "backoff_factor rl = 3 / 2"
  shows "1 \<le> current_delay (apply_calls cs rl) \<and>
         current_delay (apply_calls cs rl) \<le> max_delay rl"
  using assms
proof (induction cs arbitrary: rl)
  case Nil
  then show ?case by simp
next
  case (Cons c cs)
  have step: "1 \<le> current_delay (apply_call c rl) \<and>
              current_delay (apply_call c rl) \<le> max_delay rl"
  proof (cases c)
    case CallSuccess
    then show ?thesis
      using success_floor_one [of rl] Cons.prems by (simp add: success_def)
  next
    case (CallFailure jitter)
    then show ?thesis
      using failure_raises_delay [of rl jitter] Cons.prems by simp
  qed
  have "1 \<le> current_delay (apply_calls cs (apply_call c rl)) \<and>
        current_delay (apply_calls cs (apply_call c rl)) \<le> max_delay (apply_call c rl)"
    using Cons.prems step apply_call_keeps_parameters [of c rl]
    by (intro Cons.IH) simp_all
  then show ?case
    using apply_call_keeps_parameters [of c rl] by simp
qed

text \<open>
  Claim C6. The claim: for every limiter built with an initial delay not above the cap,
  every sequence of \<open>success()\<close> and \<open>failure()\<close> calls keeps
  \<open>initial_delay \<le> current_delay \<le> max_delay\<close>, and \<open>success()\<close> never takes the
  delay below the initial delay. The source's \<open>success\<close> takes the maximum with the
  constant 1, not with the initial delay (its comment says "not below initial"): a
  limiter built with initial delay 2 and cap 60 has delay 5/3 after one \<open>success()\<close>,
  below its initial delay.
\<close>

theorem success_below_initial_delay:
  "current_delay (RateLimiter_init 2 60 (3 / 2)) = 2 \<and>
   current_delay (success (RateLimiter_init 2 60 (3 / 2))) = 5 / 3 \<and>
   current_delay (apply_calls [CallSuccess] (RateLimiter_init 2 60 (3 / 2)))
     < current_delay (RateLimiter_init 2 60 (3 / 2))"
  by (simp add: success_def RateLimiter_init_def)

section \<open>Properties of the retry wrapper\<close>

lemma retry_loop_fail:
  assumes "int n < m" and "replies n = Inl e"
  shows "retry_loop True replies jitters m n le w =
         retry_loop True replies jitters m (Suc n) (Some (''Gemini API call failed: '' @ e))
           (attempt_failed (jitters n) w)"
  using assms
  by (subst retry_loop.simps)
     (simp add: call_gemini_def attempt_failed_def Let_def split: prod.splits)

lemma retry_loop_ok:
  assumes "int n < m" and "replies n = Inr r"
  shows "retry_loop True replies jitters m n le w = (Inr r, attempt_succeeded w)"
  using assms
  by (subst retry_loop.simps) (simp add: call_gemini_def attempt_succeeded_def Let_def)

lemma retry_loop_exhausted:
  assumes "\<not> int n < m"
  shows "retry_loop True replies jitters m n le w =
     (Inl (''Maximum retries ('' @ str_int m @ '') exceeded: '' @
              (case le of None \<Rightarrow> ''None'' | Some e \<Rightarrow> e)), w)"
  using assms by (subst retry_loop.simps) simp

lemma log_attempt_failed:
  "\<exists>d. log (attempt_failed j w) = log w @ [EvWait, EvAttempt, EvFailure d, EvSleep d]"
  by (simp add: attempt_failed_def do_wait_def do_failure_def do_sleep_def Let_def
      split: prod.splits)

lemma log_attempt_succeeded:
  "log (attempt_succeeded w) = log w @ [EvWait, EvAttempt, EvSuccess]"
  by (simp add: attempt_succeeded_def do_wait_def do_success_def Let_def split: prod.splits)

lemma retry_loop_all_fail:
  assumes "\<forall>k. int k < m \<longrightarrow> replies k = Inl (errs k)" and "int n \<le> m"
  shows "\<exists>w'. retry_loop True replies jitters m n le w =
     (Inl (''Maximum retries ('' @ str_int m @ '') exceeded: '' @
        (if int n < m then ''Gemini API call failed: '' @ errs (nat (m - 1))
         else (case le of None \<Rightarrow> ''None'' | Some e \<Rightarrow> e))), w')"
  using assms
proof (induction "nat (m - int n)" arbitrary: n le w)
  case 0
  then have "\<not> int n < m" by simp
  then show ?case by (simp add: retry_loop_exhausted)
next
  case (Suc x)
  then have lt: "int n < m" by linarith
  with Suc.prems have e: "replies n = Inl (errs n)" by blast
  have step: "retry_loop True replies jitters m n le w =
         retry_loop True replies jitters m (Suc n)
           (Some (''Gemini API call failed: '' @ errs n)) (attempt_failed (jitters n) w)"
    using retry_loop_fail [of n m replies "errs n" jitters le w] lt e by simp
  have "x = nat (m - int (Suc n))" using Suc.hyps(2) by linarith
  moreover have "int (Suc n) \<le> m" using lt by linarith
  ultimately obtain w' where
    ih: "retry_loop True replies jitters m (Suc n)
           (Some (''Gemini API call failed: '' @ errs n)) (attempt_failed (jitters n) w) =
     (Inl (''Maximum retries ('' @ str_int m @ '') exceeded: '' @
        (if int (Suc n) < m then ''Gemini API call failed: '' @ errs (nat (m - 1))
         else ''Gemini API call failed: '' @ errs n)), w')"
    using Suc.hyps(1) [of "Suc n"] Suc.prems(1) by fastforce
  show ?case
  proof (cases "int (Suc n) < m")
    case True
    then show ?thesis using step ih lt by simp
  next
    case False
    then have "nat (m - 1) = n" using lt by linarith
    then show ?thesis using step ih lt False by simp
  qed
qed

lemma two_failures_then_success:
  assumes "3 \<le> max_retries" and "replies 0 = Inl e0" and "replies 1 = Inl e1"
    and "replies 2 = Inr r"
  shows "\<exists>w' d0 d1.
     call_gemini_with_retry True replies jitters max_retries w = (Inr r, w') \<and>
     log w' = log w @ [EvWait, EvAttempt, EvFailure d0, EvSleep d0,
                       EvWait, EvAttempt, EvFailure d1, EvSleep d1,
                       EvWait, EvAttempt, EvSuccess]"
proof -
  let ?w1 = "attempt_failed (jitters 0) w"
  let ?w2 = "attempt_failed (jitters (Suc 0)) ?w1"
  have "call_gemini_with_retry True replies jitters max_retries w =
        retry_loop True replies jitters max_retries 0 None w"
    by (simp add: call_gemini_with_retry_def)
  also have "\<dots> = retry_loop True replies jitters max_retries 1
                    (Some (''Gemini API call failed: '' @ e0)) ?w1"
    using retry_loop_fail [of 0 max_retries replies e0] assms by simp
  also have "\<dots> = retry_loop True replies jitters max_retries 2
                    (Some (''Gemini API call failed: '' @ e1)) ?w2"
    using retry_loop_fail [of 1 max_retries replies e1] assms by (simp add: numeral_2_eq_2)
  also have "\<dots> = (Inr r, attempt_succeeded ?w2)"
    using retry_loop_ok [of 2 max_retries replies r] assms by simp
  finally have res: "call_gemini_with_retry True replies jitters max_retries w =
     (Inr r, attempt_succeeded ?w2)" .
  obtain d0 where d0: "log ?w1 = log w @ [EvWait, EvAttempt, EvFailure d0, EvSleep d0]"
    using log_attempt_failed by blast
  obtain d1 where d1: "log ?w2 = log ?w1 @ [EvWait, EvAttempt, EvFailure d1, EvSleep d1]"
    using log_attempt_failed [of "jitters (Suc 0)" ?w1] by blast
  have "log (attempt_succeeded ?w2) =
        log w @ [EvWait, EvAttempt, EvFailure d0, EvSleep d0,
                 EvWait, EvAttempt, EvFailure d1, EvSleep d1,
                 EvWait, EvAttempt, EvSuccess]"
    by (simp add: log_attempt_succeeded d0 d1)
  with res show ?thesis by blast
qed

text \<open>
  Claim C5. With the model library available and at least three attempts allowed
  (three is the default): if the first two attempts raise and the third answers, the
  wrapper returns that answer, and what it called, in order, is \<open>wait\<close>, the attempt,
  \<open>failure\<close> and a sleep of the delay \<open>failure\<close> returned, the same again, then
  \<open>wait\<close>, the attempt and \<open>success\<close>: two \<open>failure()\<close> calls, one \<open>success()\<close> call,
  and a \<open>wait()\<close> before each of the three attempts. If a positive number of attempts
  is allowed and every one raises, the wrapper raises, and its message ends with the
  message of the last attempt's exception.
\<close>

theorem retry_wrapper_contract:
  "(3 \<le> max_retries \<and> replies 0 = Inl e0 \<and> replies 1 = Inl e1 \<and> replies 2 = Inr r \<longrightarrow>
      (\<exists>w' d0 d1.
         call_gemini_with_retry True replies jitters max_retries w = (Inr r, w') \<and>
         log w' = log w @ [EvWait, EvAttempt, EvFailure d0, EvSleep d0,
                           EvWait, EvAttempt, EvFailure d1, EvSleep d1,
                           EvWait, EvAttempt, EvSuccess] \<and>
         length (filter is_failure_call (log w')) = length (filter is_failure_call (log w)) + 2 \<and>
         length (filter is_success_call (log w')) = length (filter is_success_call (log w)) + 1 \<and>
         length (filter is_wait_call (log w')) = length (filter is_wait_call (log w)) + 3))
   \<and>
   (0 < max_retries \<and> (\<forall>k. int k < max_retries \<longrightarrow> replies k = Inl (errs k)) \<longrightarrow>
      fst (call_gemini_with_retry True replies jitters max_retries w) =
        Inl (''Maximum retries ('' @ str_int max_retries @ '') exceeded: '' @
             ''Gemini API call failed: '' @ errs (nat (max_retries - 1))))"
proof (intro conjI impI)
  assume a: "3 \<le> max_retries \<and> replies 0 = Inl e0 \<and> replies 1 = Inl e1 \<and> replies 2 = Inr r"
  then obtain w' d0 d1 where
    res: "call_gemini_with_retry True replies jitters max_retries w = (Inr r, w')" and
    lg: "log w' = log w @ [EvWait, EvAttempt, EvFailure d0, EvSleep d0,
                           EvWait, EvAttempt, EvFailure d1, EvSleep d1,
                           EvWait, EvAttempt, EvSuccess]"
    using two_failures_then_success [of max_retries replies e0 e1 r jitters w] by blast
  show "\<exists>w' d0 d1.
         call_gemini_with_retry True replies jitters max_retries w = (Inr r, w') \<and>
         log w' = log w @ [EvWait, EvAttempt, EvFailure d0, EvSleep d0,
                           EvWait, EvAttempt, EvFailure d1, EvSleep d1,
                           EvWait, EvAttempt, EvSuccess] \<and>
         length (filter is_failure_call (log w')) = length (filter is_failure_call (log w)) + 2 \<and>
         length (filter is_success_call (log w')) = length (filter is_success_call (log w)) + 1 \<and>
         length (filter is_wait_call (log w')) = length (filter is_wait_call (log w)) + 3"
    using res lg by (intro exI [of _ w'] exI [of _ d0] exI [of _ d1]) simp
next
  assume b: "0 < max_retries \<and> (\<forall>k. int k < max_retries \<longrightarrow> replies k = Inl (errs k))"
  then obtain w' where
    "retry_loop True replies jitters max_retries 0 None w =
     (Inl (''Maximum retries ('' @ str_int max_retries @ '') exceeded: '' @
        (if int 0 < max_retries then ''Gemini API call failed: '' @ errs (nat (max_retries - 1))
         else (case None of None \<Rightarrow> ''None'' | Some e \<Rightarrow> e))), w')"
    using retry_loop_all_fail [of max_retries replies errs 0 jitters None w] by auto
  then show "fst (call_gemini_with_retry True replies jitters max_retries w) =
        Inl (''Maximum retries ('' @ str_int max_retries @ '') exceeded: '' @
             ''Gemini API call failed: '' @ errs (nat (max_retries - 1)))"
    using b by (simp add: call_gemini_with_retry_def)
qed

theorem retry_wrapper_contract_witness:
  "fst (call_gemini_with_retry True
          (\<lambda>k. if k < 2 then Inl ''quota exceeded'' else Inr ''{}'') (\<lambda>k. 1) 3 world0)
     = Inr ''{}'' \<and>
   fst (call_gemini_with_retry True (\<lambda>k. Inl ''quota exceeded'') (\<lambda>k. 1) 3 world0)
     = Inl ''Maximum retries (3) exceeded: Gemini API call failed: quota exceeded''"
proof -
  have s3: "str_int 3 = ''3''"
    by (simp add: str_int_def digit_char_def)
  let ?replies = "\<lambda>k::nat. if k < 2 then Inl ''quota exceeded'' else Inr ''{}''"
  have h: "(3::int) \<le> 3 \<and> ?replies 0 = Inl ''quota exceeded'' \<and>
           ?replies 1 = Inl ''quota exceeded'' \<and> ?replies 2 = Inr ''{}''"
    by simp
  obtain w' where "call_gemini_with_retry True ?replies (\<lambda>k. 1) 3 world0 = (Inr ''{}'', w')"
    using retry_wrapper_contract [of 3 ?replies "''quota exceeded''" "''quota exceeded''"
        "''{}''" "\<lambda>k. 1" world0, THEN conjunct1, THEN mp, OF h]
    by blast
  then have "fst (call_gemini_with_retry True ?replies (\<lambda>k. 1) 3 world0) = Inr ''{}''"
    by simp
  moreover have "fst (call_gemini_with_retry True (\<lambda>k. Inl ''quota exceeded'') (\<lambda>k. 1) 3 world0)
     = Inl ''Maximum retries (3) exceeded: Gemini API call failed: quota exceeded''"
    using retry_wrapper_contract [of 3 "\<lambda>k. Inl ''quota exceeded''" _ _ _ "\<lambda>k. 1" world0
        "\<lambda>k. ''quota exceeded''"] s3
    by simp
  ultimately show ?thesis by blast
qed

section \<open>Properties of the queue\<close>



















section \<open>Properties of the parser\<close>







lemma ensure_fields_other: "k \<notin> set fs \<Longrightarrow> map_of (ensure_fields fs d) k = map_of d k"
  by (induction fs arbitrary: d) (auto simp: update_conv')




lemma format_skills_value:
  "format_skills d = Inr d' \<Longrightarrow> map_of d ''skills'' = Some (JArr xs) \<Longrightarrow>
   list_all is_str xs \<and> map_of d' ''skills'' = Some (JStr (join '', '' (map str_of xs)))"
  by (auto simp: format_skills_def get_or_def seq_def str_join_def update_conv' split: if_splits sum.splits)





















text \<open>
  Claim C4, as stated: without a JSON span the result is the fallback record, with all
  fields other than the name at their empty defaults. The fallback record's
  \<open>gap_analysis_text\<close> is the sentence "No analysis available.": not empty, and not the
  sentence a parsed record gets when it has no gaps.
\<close>

theorem fallback_gap_text_counterexample:
  "parse_response (\<lambda>s. None) (\<lambda>v. []) ''I could not read this resume.'' = fallback_record \<and>
   map_of (parse_response (\<lambda>s. None) (\<lambda>v. []) ''I could not read this resume.'')
     ''gap_analysis_text'' = Some (JStr ''No analysis available.'') \<and>
   ''No analysis available.'' \<noteq> [] \<and>
   ''No analysis available.'' \<noteq> ''No significant gaps identified.''"
  by (simp add: parse_response_def parse_response_try_def Let_def fallback_record_def)

text \<open>
  Claim C4, amended. For every input in which no JSON span exists (no opening brace,
  no closing brace, or the last closing brace before the first opening brace) or
  whose span does not parse, \<open>_parse_response\<close> returns the fixed fallback record:
  name "Unknown", match score 0, experience 0, the empty string for email, phone,
  education, skills, location, linkedin, github, languages, certifications, work
  history summary and match reasons text, the empty list for work history, match
  reasons and gap analysis, and "No analysis available." for the gap analysis text.
  For every input it returns a record: the fallback record, or the record its
  \<open>try\<close> block produced.
\<close>

theorem parse_response_fallback:
  "(find_char CHR ''{'' response < 0 \<or>
    rfind_char CHR ''}'' response < 0 \<or>
    rfind_char CHR ''}'' response < find_char CHR ''{'' response \<or>
    loads (slice response (find_char CHR ''{'' response) (rfind_char CHR ''}'' response + 1)) = None
      \<longrightarrow> parse_response loads repr response = fallback_record) \<and>
   (parse_response loads repr response = fallback_record \<or>
    parse_response_try loads repr response = Inr (parse_response loads repr response)) \<and>
   map_of fallback_record ''name'' = Some (JStr ''Unknown'') \<and>
   map_of fallback_record ''match_score'' = Some (JInt 0) \<and>
   map_of fallback_record ''experience'' = Some (JInt 0) \<and>
   list_all (\<lambda>k. map_of fallback_record k = Some (JStr []))
     [''email'', ''phone'', ''education'', ''skills'', ''location'', ''linkedin'', ''github'',
      ''languages'', ''certifications'', ''work_history_summary'', ''match_reasons_text''] \<and>
   list_all (\<lambda>k. map_of fallback_record k = Some (JArr []))
     [''work_history'', ''match_reasons'', ''gap_analysis''] \<and>
   map_of fallback_record ''gap_analysis_text'' = Some (JStr ''No analysis available.'') \<and>
   map fst fallback_record =
     [''name'', ''email'', ''phone'', ''education'', ''experience'', ''skills'', ''location'',
      ''linkedin'', ''github'', ''languages'', ''certifications'', ''work_history'',
      ''work_history_summary'', ''match_score'', ''match_reasons'', ''match_reasons_text'',
      ''gap_analysis'', ''gap_analysis_text'']"
proof -
  have "find_char CHR ''{'' response < 0 \<or>
    rfind_char CHR ''}'' response < 0 \<or>
    rfind_char CHR ''}'' response < find_char CHR ''{'' response \<or>
    loads (slice response (find_char CHR ''{'' response) (rfind_char CHR ''}'' response + 1)) = None
      \<longrightarrow> parse_response loads repr response = fallback_record"
    by (auto simp: parse_response_def parse_response_try_def Let_def)
  moreover have "parse_response loads repr response = fallback_record \<or>
    parse_response_try loads repr response = Inr (parse_response loads repr response)"
    by (auto simp: parse_response_def split: sum.splits)
  ultimately show ?thesis
    by (simp add: fallback_record_def)
qed

theorem parse_response_fallback_witness:
  "parse_response (\<lambda>s. None) (\<lambda>v. []) ''I could not read this resume.'' = fallback_record \<and>
   parse_response (\<lambda>s. Some []) (\<lambda>v. []) ''} before {'' = fallback_record \<and>
   parse_response (\<lambda>s. None) (\<lambda>v. []) ''{\"name\": \"Ann\", }'' = fallback_record"
  using parse_response_fallback [of "''I could not read this resume.''" "\<lambda>s. None" "\<lambda>v. []"]
    parse_response_fallback [of "''} before {''" "\<lambda>s. Some []" "\<lambda>v. []"]
    parse_response_fallback [of "''{\"name\": \"Ann\", }''" "\<lambda>s. None" "\<lambda>v. []"]
  by (simp add: rfind_char_def)

lemma str_add_is_str: "is_str v \<Longrightarrow> str_add s v = Inr (s @ str_of v)"
  by (cases v) simp_all

lemma education_entry_text:
  assumes "education_typed edu"
  shows "education_entry repr edu = Inr (education_text repr edu)"
  using assms
  by (auto simp: education_typed_def str_or_absent_def education_entry_def education_text_def
      text_at_def has_key_def seq_def Let_def str_add_is_str split: option.splits)

lemma education_parts_text:
  assumes "list_all education_typed (objects entries)"
  shows "education_parts repr entries = Inr (map (education_text repr) (objects entries))"
  using assms
proof (induction entries)
  case Nil
  then show ?case by simp
next
  case (Cons e entries)
  then show ?case
    by (cases e) (simp_all add: seq_def education_entry_text)
qed

text \<open>
  Claim C8, as stated: the comma before the field is left out when the part before it
  is absent. An entry with a field only gives \<open>", CS"\<close>, and an entry with a year only
  gives \<open>" (2020)"\<close>: the comma, and the blank before the year, are always written.
\<close>

theorem education_connector_counterexample:
  "format_education (\<lambda>v. []) [(''education'', JArr [JObj [(''field'', JStr ''CS'')]])]
     = Inr [(''education'', JStr '', CS'')] \<and>
   format_education (\<lambda>v. []) [(''education'', JArr [JObj [(''year'', JInt 2020)]])]
     = Inr [(''education'', JStr '' (2020)'')]"
  by (simp add: format_education_def get_or_def seq_def education_entry_def Let_def
      str_int_def digit_char_def)

text \<open>
  Claim C8, amended. When \<open>education\<close> is an array, every entry of it that is an object
  (whose degree and institution, where present, are strings) is flattened to
  \<open>"<degree> from <institution> (<year>), <field>"\<close> with each part left out when
  absent; \<open>" from "\<close> is left out when no degree text stands before it; the year is
  always written as \<open>" (<year>)"\<close> and the field as \<open>", <field>"\<close>, also when nothing
  stands before them. Entries that are not objects are skipped, and the texts are
  joined with \<open>"; "\<close>.
\<close>

theorem education_flattening:
  assumes "map_of d ''education'' = Some (JArr entries)"
    and "list_all education_typed (objects entries)"
  shows "format_education repr d =
           Inr (AList.update ''education''
                  (JStr (join ''; '' (map (education_text repr) (objects entries)))) d)"
  using assms
  by (simp add: format_education_def get_or_def seq_def education_parts_text)

theorem education_flattening_witness:
  "format_education (\<lambda>v. [])
     [(''education'',
       JArr [JObj [(''degree'', JStr ''BSc''), (''institution'', JStr ''X University''),
                   (''year'', JInt 2020)],
             JStr ''self-taught'',
             JObj [(''institution'', JStr ''X'')]])]
   = Inr [(''education'', JStr ''BSc from X University (2020); X'')]"
proof -
  let ?entries = "[JObj [(''degree'', JStr ''BSc''), (''institution'', JStr ''X University''),
                         (''year'', JInt 2020)],
                   JStr ''self-taught'',
                   JObj [(''institution'', JStr ''X'')]]"
  have a: "map_of [(''education'', JArr ?entries)] ''education'' = Some (JArr ?entries)"
    by simp
  have b: "list_all education_typed (objects ?entries)"
    by (simp add: education_typed_def str_or_absent_def)
  show ?thesis
    using education_flattening [OF a b, of "\<lambda>v. []"]
    by (simp add: education_text_def text_at_def has_key_def str_int_def digit_char_def)
qed

section \<open>Properties of analyze_document\<close>



















section \<open>Properties of the query filter\<close>










end
